theory Spec2Isabelle
  imports Complex_Main "HOL-Library.Sublist"
begin

section \<open>JavaScript values\<close>

text \<open>
  The provider layer is TypeScript.  Its \<^verbatim>\<open>Promise\<close>s are modelled by explicit
  state passing: an asynchronous call takes the state of the outside world (the backend)
  and returns its settlement together with the new state, a rejection or a \<^verbatim>\<open>throw\<close> being
  the left injection of a sum.  Numbers of the configuration (attempt counts, delays and
  timeouts in milliseconds) are integers; the jitter, a fraction of a delay, is a real.
  Calls of \<^verbatim>\<open>console.log\<close>, \<^verbatim>\<open>console.warn\<close> and \<^verbatim>\<open>console.error\<close> do not influence
  control flow and are left out, except that the retry loop records each retry it
  announces.
\<close>

text \<open>
  An \<^verbatim>\<open>Error\<close> object: its \<^verbatim>\<open>message\<close> and the optional \<^verbatim>\<open>code\<close> that the HTTP client
  sets on its errors (\<^verbatim>\<open>ECONNABORTED\<close> for a timeout).
\<close>

datatype js_error = Error (code: "string option") (message: string)

text \<open>Truthiness of an optional string and \<^verbatim>\<open>x || d\<close> on optional strings and numbers.\<close>

definition truthy :: "string option \<Rightarrow> bool" where
  "truthy x = (case x of None \<Rightarrow> False | Some v \<Rightarrow> v \<noteq> [])"

definition or_string :: "string option \<Rightarrow> string \<Rightarrow> string" where
  "or_string x d = (case x of None \<Rightarrow> d | Some v \<Rightarrow> if v = [] then d else v)"

definition or_number :: "int option \<Rightarrow> int \<Rightarrow> int" where
  "or_number x d = (case x of None \<Rightarrow> d | Some v \<Rightarrow> if v = 0 then d else v)"

text \<open>\<^verbatim>\<open>String.prototype.includes\<close> and \<^verbatim>\<open>Array.prototype.join\<close>.\<close>

fun str_includes :: "string \<Rightarrow> string \<Rightarrow> bool" where
  "str_includes [] sub = (sub = [])"
| "str_includes (c # cs) sub = (prefix sub (c # cs) \<or> str_includes cs sub)"

fun join :: "string \<Rightarrow> string list \<Rightarrow> string" where
  "join sep [] = []"
| "join sep [x] = x"
| "join sep (x # y # ys) = x @ sep @ join sep (y # ys)"

text \<open>\<^verbatim>\<open>Array.prototype.findIndex\<close>; the result \<^verbatim>\<open>-1\<close> is \<open>None\<close>.\<close>

fun findIndex :: "('a \<Rightarrow> bool) \<Rightarrow> 'a list \<Rightarrow> nat option" where
  "findIndex p [] = None"
| "findIndex p (x # xs) = (if p x then Some 0 else map_option Suc (findIndex p xs))"

text \<open>\<^verbatim>\<open>String.prototype.toLowerCase\<close> on ASCII.\<close>

definition toLowerChar :: "char \<Rightarrow> char" where
  "toLowerChar c =
     (let n = (of_char c :: nat) in if 65 \<le> n \<and> n \<le> 90 then char_of (n + 32) else c)"

definition toLowerCase :: "string \<Rightarrow> string" where
  "toLowerCase s = map toLowerChar s"

section \<open>The backoff executor\<close>

text \<open>
  \<^verbatim>\<open>withBackoff\<close> occurs twice in the source, in \<^verbatim>\<open>makeOllamaEmbedder\<close> and in
  \<^verbatim>\<open>OllamaProvider.createEmbedder\<close>, with the same text; \<^verbatim>\<open>numOfAttempts\<close>, \<^verbatim>\<open>maxDelay\<close>
  and \<^verbatim>\<open>startingDelay\<close> are variables of the enclosing function and are parameters here.
  The operation \<open>fn\<close> acts on the world state.  \<open>rnd k\<close> is the value of the \<open>k\<close>-th call
  of \<^verbatim>\<open>Math.random()\<close>.  Each retry (the warning printed and the delay slept) is recorded.
\<close>

record retry =
  retry_attempt :: int
  retry_delay :: int
  retry_actualDelay :: real

function withBackoff_loop ::
  "int \<Rightarrow> int \<Rightarrow> (nat \<Rightarrow> real) \<Rightarrow> ('s \<Rightarrow> (js_error + 'a) \<times> 's)
     \<Rightarrow> int \<Rightarrow> int \<Rightarrow> 's \<Rightarrow> retry list \<Rightarrow> (js_error + 'a) \<times> 's \<times> retry list"
where
  "withBackoff_loop numOfAttempts maxDelay rnd fn attempt delay s retries =
    (if attempt < numOfAttempts then
       (case fn s of
          (Inr v, s') \<Rightarrow> (Inr v, s', retries)
        | (Inl error, s') \<Rightarrow>
            (let attempt' = attempt + 1 in
             if attempt' \<ge> numOfAttempts then (Inl error, s', retries)
             else
               (let delay' = min (delay * 2) maxDelay;
                    jitter = rnd (length retries) * 0.1 * real_of_int delay';
                    actualDelay = real_of_int delay' + jitter
                in withBackoff_loop numOfAttempts maxDelay rnd fn attempt' delay' s'
                     (retries @ [\<lparr>retry_attempt = attempt', retry_delay = delay',
                                  retry_actualDelay = actualDelay\<rparr>]))))
     else (Inl (Error None ''Should not reach here''), s, retries))"
  by pat_completeness auto
termination
  by (relation "measure (\<lambda>(n, md, rnd, fn, a, d, s, retries). nat (n - a))") auto

declare withBackoff_loop.simps [simp del]

definition withBackoff ::
  "int \<Rightarrow> int \<Rightarrow> int \<Rightarrow> (nat \<Rightarrow> real) \<Rightarrow> ('s \<Rightarrow> (js_error + 'a) \<times> 's) \<Rightarrow> 's
     \<Rightarrow> (js_error + 'a) \<times> 's \<times> retry list" where
  "withBackoff numOfAttempts maxDelay startingDelay rnd fn s =
     withBackoff_loop numOfAttempts maxDelay rnd fn 0 startingDelay s []"

text \<open>
  Instrumentation for statements about the number of invocations: \<open>counted fn\<close> behaves
  as \<open>fn\<close> and counts its invocations in an extra component of the state.
\<close>

definition counted :: "('s \<Rightarrow> 'r \<times> 's) \<Rightarrow> nat \<times> 's \<Rightarrow> 'r \<times> nat \<times> 's" where
  "counted fn = (\<lambda>(c, s). case fn s of (r, s') \<Rightarrow> (r, Suc c, s'))"

text \<open>An operation on a counter state whose \<open>c\<close>-th invocation fails with \<open>errs c\<close>.\<close>

definition failing :: "(nat \<Rightarrow> js_error) \<Rightarrow> nat \<Rightarrow> (js_error + 'a) \<times> nat" where
  "failing errs = (\<lambda>c. (Inl (errs c), Suc c))"

text \<open>The state of the world after \<open>k\<close> invocations of \<open>fn\<close>.\<close>

definition after_calls :: "('s \<Rightarrow> 'r \<times> 's) \<Rightarrow> nat \<Rightarrow> 's \<Rightarrow> 's" where
  "after_calls fn k s = ((\<lambda>t. snd (fn t)) ^^ k) s"

section \<open>Configuration and results\<close>

text \<open>
  \<^verbatim>\<open>LlmProviderConfig\<close>: every field is optional.  \<^verbatim>\<open>numOfAttempts\<close>, \<^verbatim>\<open>maxDelay\<close> and
  \<^verbatim>\<open>startingDelay\<close> are the provider-specific fields read by the Ollama embedder.  The
  interface admits them through its index signature, whose values are untyped; the
  record covers the absent field and the integer values.  Other values (a fraction such
  as 0.5, a string such as \<^verbatim>\<open>'0'\<close>) are truthy, are kept by \<^verbatim>\<open>||\<close> as they are and lie
  outside this record, so nothing below speaks for them.
\<close>

record LlmProviderConfig =
  apiKey :: "string option"
  baseUrl :: "string option"
  model :: "string option"
  embeddingModel :: "string option"
  timeout :: "int option"
  numOfAttempts :: "int option"
  maxDelay :: "int option"
  startingDelay :: "int option"

text \<open>\<^verbatim>\<open>OllamaEmbedderOptions\<close> with its nested \<^verbatim>\<open>backoffOptions\<close>.\<close>

record BackoffOptions =
  bo_numOfAttempts :: "int option"
  bo_maxDelay :: "int option"
  bo_startingDelay :: "int option"

record OllamaEmbedderOptions =
  opt_baseUrl :: "string option"
  opt_model :: "string option"
  backoffOptions :: "BackoffOptions option"

text \<open>
  A chat message \<^verbatim>\<open>{role, content}\<close>; the value returned by \<^verbatim>\<open>answerQuestionAwaited\<close> has
  the same shape.  \<^verbatim>\<open>EmbedResult\<close> is \<^verbatim>\<open>{embedding}\<close>.
\<close>

record Message =
  role :: string
  content :: string

record EmbedResult =
  embedding :: "real list"

section \<open>The HTTP client of the Ollama adapters\<close>

text \<open>
  \<^verbatim>\<open>axios.post(url, body, options)\<close>: the request, and the response with its \<^verbatim>\<open>data\<close>, which
  the code tests for presence.  The client is a function on the world state.
\<close>

record PostRequest =
  url :: string
  body_model :: string
  body_prompt :: string
  body_stream :: "bool option"
  options_timeout :: "int option"

datatype 'd AxiosResponse = AxiosResponse (data: "'d option")

record EmbeddingsData =
  data_embedding :: "real list option"

record GenerateData =
  data_response :: string

type_synonym ('d, 's) http_post = "PostRequest \<Rightarrow> 's \<Rightarrow> (js_error + 'd AxiosResponse) \<times> 's"

section \<open>The Ollama embedder\<close>

text \<open>
  The closure built by \<^verbatim>\<open>makeOllamaEmbedder\<close> and by \<^verbatim>\<open>OllamaProvider.createEmbedder\<close>: the
  variables that \<^verbatim>\<open>withBackoff\<close>, \<^verbatim>\<open>embedText\<close> and \<^verbatim>\<open>embed\<close> capture.
\<close>

record OllamaEmbedder =
  embedder_baseUrl :: string
  embedder_model :: string
  embedder_numOfAttempts :: int
  embedder_maxDelay :: int
  embedder_startingDelay :: int

text \<open>A destructuring default applies to an absent field only.\<close>

definition default_to :: "'a option \<Rightarrow> 'a \<Rightarrow> 'a" where
  "default_to x d = (case x of None \<Rightarrow> d | Some v \<Rightarrow> v)"

definition makeOllamaEmbedder :: "OllamaEmbedderOptions \<Rightarrow> OllamaEmbedder" where
  "makeOllamaEmbedder options =
     (let backoff = default_to (backoffOptions options)
            \<lparr>bo_numOfAttempts = Some 3, bo_maxDelay = Some 5000, bo_startingDelay = Some 1000\<rparr>
      in \<lparr>embedder_baseUrl = default_to (opt_baseUrl options) ''http://localhost:11434'',
          embedder_model = default_to (opt_model options) ''nomic-embed-text'',
          embedder_numOfAttempts = or_number (bo_numOfAttempts backoff) 3,
          embedder_maxDelay = or_number (bo_maxDelay backoff) 5000,
          embedder_startingDelay = or_number (bo_startingDelay backoff) 1000\<rparr>)"

definition OllamaProvider_createEmbedder :: "LlmProviderConfig \<Rightarrow> OllamaEmbedder" where
  "OllamaProvider_createEmbedder config =
     \<lparr>embedder_baseUrl = or_string (baseUrl config) ''http://localhost:11434'',
      embedder_model = or_string (embeddingModel config) ''nomic-embed-text'',
      embedder_numOfAttempts = or_number (numOfAttempts config) 3,
      embedder_maxDelay = or_number (maxDelay config) 5000,
      embedder_startingDelay = or_number (startingDelay config) 1000\<rparr>"

text \<open>The request of \<^verbatim>\<open>embedText\<close> and the operation that it hands to \<^verbatim>\<open>withBackoff\<close>.\<close>

definition embeddings_request :: "OllamaEmbedder \<Rightarrow> string \<Rightarrow> PostRequest" where
  "embeddings_request e txt =
     \<lparr>url = embedder_baseUrl e @ ''/api/embeddings'', body_model = embedder_model e,
      body_prompt = txt, body_stream = None, options_timeout = None\<rparr>"

definition embeddings_call ::
  "OllamaEmbedder \<Rightarrow> (EmbeddingsData, 's) http_post \<Rightarrow> string \<Rightarrow> 's \<Rightarrow> (js_error + real list) \<times> 's"
where
  "embeddings_call e post txt s =
     (case post (embeddings_request e txt) s of
        (Inl error, s') \<Rightarrow> (Inl error, s')
      | (Inr resp, s') \<Rightarrow>
          (case data resp of
             None \<Rightarrow> (Inl (Error None ''Invalid response from Ollama API: missing embedding''), s')
           | Some d \<Rightarrow>
               (case data_embedding d of
                  None \<Rightarrow>
                    (Inl (Error None ''Invalid response from Ollama API: missing embedding''), s')
                | Some v \<Rightarrow> (Inr v, s'))))"

definition embedText ::
  "OllamaEmbedder \<Rightarrow> (nat \<Rightarrow> real) \<Rightarrow> (EmbeddingsData, 's) http_post \<Rightarrow> string \<Rightarrow> 's
     \<Rightarrow> (js_error + real list) \<times> 's \<times> retry list"
where
  "embedText e rnd post txt s =
     withBackoff (embedder_numOfAttempts e) (embedder_maxDelay e) (embedder_startingDelay e) rnd
       (embeddings_call e post txt) s"

definition Ollama_embed ::
  "OllamaEmbedder \<Rightarrow> (nat \<Rightarrow> real) \<Rightarrow> (EmbeddingsData, 's) http_post \<Rightarrow> string \<Rightarrow> 's
     \<Rightarrow> (js_error + EmbedResult) \<times> 's \<times> retry list"
where
  "Ollama_embed e rnd post txt s =
     (case embedText e rnd post txt s of
        (Inl error, rest) \<Rightarrow> (Inl error, rest)
      | (Inr v, rest) \<Rightarrow> (Inr \<lparr>embedding = v\<rparr>, rest))"

section \<open>The Gemini adapter\<close>

text \<open>
  The wire shape of a message for Gemini, \<^verbatim>\<open>{role, parts: [{text}]}\<close>, and the closure of
  \<^verbatim>\<open>GeminiProvider.createChatLlm\<close>.  The constant \<^verbatim>\<open>generationConfig\<close> is left out.
\<close>

record Part =
  part_text :: string

record GeminiMessage =
  gemini_role :: string
  parts :: "Part list"

record GeminiChatLlm =
  chat_apiKey :: string
  chat_model :: string
  chat_timeout :: int

definition GeminiProvider_createChatLlm :: "LlmProviderConfig \<Rightarrow> js_error + GeminiChatLlm" where
  "GeminiProvider_createChatLlm config =
     (if \<not> truthy (apiKey config) then Inl (Error None ''Gemini provider requires an API key'')
      else Inr \<lparr>chat_apiKey = the (apiKey config),
                chat_model = or_string (model config) ''gemini-2.0-flash-thinking-exp-01-21'',
                chat_timeout = or_number (timeout config) 60000\<rparr>)"

text \<open>
  The conversion of the messages at the head of \<^verbatim>\<open>answerQuestionAwaited\<close>.  Every converted
  message has exactly one part, so \<^verbatim>\<open>parts[0]\<close> exists wherever it is read.  The write
  to \<^verbatim>\<open>nonSystemMessages[firstUserMessageIndex].parts[0].text\<close> changes an object that only
  \<^verbatim>\<open>nonSystemMessages\<close>, which is \<^verbatim>\<open>chatMessages\<close>, is read through afterwards.
\<close>

definition blank_line :: string where
  "blank_line = [CHR 0x0A, CHR 0x0A]"

definition toGeminiMessage :: "Message \<Rightarrow> GeminiMessage" where
  "toGeminiMessage msg =
     \<lparr>gemini_role = (if role msg = ''assistant'' then ''model'' else role msg),
      parts = [\<lparr>part_text = content msg\<rparr>]\<rparr>"

definition geminiChatMessages :: "Message list \<Rightarrow> GeminiMessage list" where
  "geminiChatMessages messages =
     (let geminiMessages = map toGeminiMessage messages;
          systemMessages = filter (\<lambda>msg. gemini_role msg = ''system'') geminiMessages;
          nonSystemMessages = filter (\<lambda>msg. gemini_role msg \<noteq> ''system'') geminiMessages
      in if length systemMessages > 0 \<and> length nonSystemMessages > 0 then
           (case findIndex (\<lambda>msg. gemini_role msg = ''user'') nonSystemMessages of
              None \<Rightarrow> nonSystemMessages
            | Some firstUserMessageIndex \<Rightarrow>
                (let systemContent =
                       join blank_line (map (\<lambda>msg. part_text (parts msg ! 0)) systemMessages);
                     userMessage = nonSystemMessages ! firstUserMessageIndex;
                     userContent = part_text (parts userMessage ! 0)
                 in nonSystemMessages
                      [firstUserMessageIndex := userMessage
                         \<lparr>parts := (parts userMessage)
                            [0 := \<lparr>part_text = ''[System Instructions: '' @ systemContent @ '']''
                                          @ blank_line @ userContent\<rparr>]\<rparr>]))
         else nonSystemMessages)"

text \<open>
  The backend call raced against the timer.  Which of the two promises settles first is
  decided outside the program, so the world answers with the settlement of the API
  call or with the fact that the timer of \<^verbatim>\<open>timeout\<close> milliseconds fired first.
  \<^verbatim>\<open>result.response.text()\<close> returns the text or throws.
\<close>

record GenerateContentResult =
  response_text :: "js_error + string"

datatype 'r raced = ApiSettled "js_error + 'r" | TimerFired

type_synonym 's generate_content =
  "GeminiMessage list \<Rightarrow> int \<Rightarrow> 's \<Rightarrow> GenerateContentResult raced \<times> 's"

definition timeout_apology :: string where
  "timeout_apology = ''I apologize, but I'' @ [CHR 0x27] @ ''m having trouble processing your request at the moment. The response is taking longer than expected. Please try a simpler query or try again later.''"

definition technical_apology :: string where
  "technical_apology = ''I apologize, but I'' @ [CHR 0x27] @ ''m experiencing technical difficulties at the moment. Please try again later.''"

definition race :: "'r raced \<Rightarrow> js_error + 'r" where
  "race outcome =
     (case outcome of
        TimerFired \<Rightarrow> Inl (Error None ''Gemini API call timed out'')
      | ApiSettled settled \<Rightarrow> settled)"

text \<open>The test of the \<^verbatim>\<open>catch\<close> block: \<^verbatim>\<open>error.message && error.message.includes('timed out')\<close>.\<close>

definition gemini_isTimeout :: "js_error \<Rightarrow> bool" where
  "gemini_isTimeout error = (message error \<noteq> [] \<and> str_includes (message error) ''timed out'')"

definition GeminiProvider_answerQuestionAwaited ::
  "GeminiChatLlm \<Rightarrow> 's generate_content \<Rightarrow> Message list \<Rightarrow> 's \<Rightarrow> (js_error + Message) \<times> 's"
where
  "GeminiProvider_answerQuestionAwaited llm generateContent messages s =
     (let chatMessages = geminiChatMessages messages in
      case generateContent chatMessages (chat_timeout llm) s of
        (outcome, s') \<Rightarrow>
          (case (case race outcome of
                   Inl error \<Rightarrow> Inl error
                 | Inr result \<Rightarrow> response_text result) of
             Inr answer \<Rightarrow> (Inr \<lparr>role = ''assistant'', content = answer\<rparr>, s')
           | Inl error \<Rightarrow>
               if gemini_isTimeout error
               then (Inr \<lparr>role = ''assistant'', content = timeout_apology\<rparr>, s')
               else (Inr \<lparr>role = ''assistant'', content = technical_apology\<rparr>, s')))"

text \<open>The embedder of the Gemini adapter: no retry, the failure is wrapped and rethrown.\<close>

record GeminiEmbedder =
  gemini_embedder_apiKey :: string
  gemini_embedder_model :: string

record EmbedContentResponse =
  embedding_values :: "real list"

definition GeminiProvider_createEmbedder :: "LlmProviderConfig \<Rightarrow> js_error + GeminiEmbedder" where
  "GeminiProvider_createEmbedder config =
     (if \<not> truthy (apiKey config) then Inl (Error None ''Gemini provider requires an API key'')
      else Inr \<lparr>gemini_embedder_apiKey = the (apiKey config),
                gemini_embedder_model = or_string (embeddingModel config) ''embedding-001''\<rparr>)"

definition GeminiProvider_embed ::
  "GeminiEmbedder \<Rightarrow> (GeminiMessage \<Rightarrow> 's \<Rightarrow> (js_error + EmbedContentResponse) \<times> 's)
     \<Rightarrow> string \<Rightarrow> 's \<Rightarrow> (js_error + EmbedResult) \<times> 's"
where
  "GeminiProvider_embed e embedContent txt s =
     (case embedContent \<lparr>gemini_role = ''user'', parts = [\<lparr>part_text = txt\<rparr>]\<rparr> s of
        (Inr embeddingResult, s') \<Rightarrow> (Inr \<lparr>embedding = embedding_values embeddingResult\<rparr>, s')
      | (Inl error, s') \<Rightarrow>
          (Inl (Error None (''Failed to generate embeddings: '' @ message error)), s'))"

section \<open>The Ollama chat adapters\<close>

text \<open>
  \<^verbatim>\<open>OllamaProvider.createChatLlm\<close> and \<^verbatim>\<open>makeOllamaLlm\<close> have the same
  \<^verbatim>\<open>answerQuestionAwaited\<close>, except that the second passes the fixed timeout 60000.
\<close>

record OllamaChatLlm =
  ollama_baseUrl :: string
  ollama_model :: string
  ollama_timeout :: int

definition OllamaProvider_createChatLlm :: "LlmProviderConfig \<Rightarrow> OllamaChatLlm" where
  "OllamaProvider_createChatLlm config =
     \<lparr>ollama_baseUrl = or_string (baseUrl config) ''http://localhost:11434'',
      ollama_model = or_string (model config) ''llama3'',
      ollama_timeout = or_number (timeout config) 60000\<rparr>"

definition makeOllamaLlm :: "string \<Rightarrow> string \<Rightarrow> OllamaChatLlm" where
  "makeOllamaLlm base_url model_name =
     \<lparr>ollama_baseUrl = base_url, ollama_model = model_name, ollama_timeout = 60000\<rparr>"

fun ollamaPrompt_loop :: "string \<Rightarrow> Message list \<Rightarrow> string" where
  "ollamaPrompt_loop prompt [] = prompt"
| "ollamaPrompt_loop prompt (msg # messages) =
     ollamaPrompt_loop
       (if role msg = ''system'' then prompt @ ''System: '' @ content msg @ blank_line
        else if role msg = ''user'' then prompt @ ''User: '' @ content msg @ blank_line
        else if role msg = ''assistant'' then prompt @ ''Assistant: '' @ content msg @ blank_line
        else prompt)
       messages"

definition ollamaPrompt :: "Message list \<Rightarrow> string" where
  "ollamaPrompt messages = ollamaPrompt_loop [] messages @ ''Assistant: ''"

definition generate_request :: "OllamaChatLlm \<Rightarrow> Message list \<Rightarrow> PostRequest" where
  "generate_request llm messages =
     \<lparr>url = ollama_baseUrl llm @ ''/api/generate'', body_model = ollama_model llm,
      body_prompt = ollamaPrompt messages, body_stream = Some False,
      options_timeout = Some (ollama_timeout llm)\<rparr>"

text \<open>
  The test of the \<^verbatim>\<open>catch\<close> block:
  \<^verbatim>\<open>error.code === 'ECONNABORTED' || (error.message && error.message.includes('timeout'))\<close>.
\<close>

definition ollama_isTimeout :: "js_error \<Rightarrow> bool" where
  "ollama_isTimeout error =
     (code error = Some ''ECONNABORTED''
      \<or> (message error \<noteq> [] \<and> str_includes (message error) ''timeout''))"

definition Ollama_answerQuestionAwaited ::
  "OllamaChatLlm \<Rightarrow> (GenerateData, 's) http_post \<Rightarrow> Message list \<Rightarrow> 's
     \<Rightarrow> (js_error + Message) \<times> 's"
where
  "Ollama_answerQuestionAwaited llm post messages s =
     (case post (generate_request llm messages) s of
        (settled, s') \<Rightarrow>
          (case (case settled of
                   Inl error \<Rightarrow> Inl error
                 | Inr resp \<Rightarrow>
                     (case data resp of
                        None \<Rightarrow>
                          Inl (Error None (''Cannot read properties of undefined (reading ''
                                 @ [CHR 0x27] @ ''response'' @ [CHR 0x27] @ '')''))
                      | Some d \<Rightarrow> Inr (data_response d))) of
             Inr answer \<Rightarrow> (Inr \<lparr>role = ''assistant'', content = answer\<rparr>, s')
           | Inl error \<Rightarrow>
               if ollama_isTimeout error
               then (Inr \<lparr>role = ''assistant'', content = timeout_apology\<rparr>, s')
               else (Inr \<lparr>role = ''assistant'', content = technical_apology\<rparr>, s')))"

section \<open>The provider registry\<close>

text \<open>
  \<^verbatim>\<open>providers\<close> is an object literal with the two own properties \<^verbatim>\<open>ollama\<close> and \<^verbatim>\<open>gemini\<close>,
  in this order.  Reading \<^verbatim>\<open>providers[key]\<close> looks the key up among the own properties and
  then along the prototype chain, which for an object literal is \<^verbatim>\<open>Object.prototype\<close>;
  each of its members is a function or an object, hence truthy.  \<^verbatim>\<open>Object.keys\<close> lists
  the own properties only.
\<close>

datatype LlmProvider = OllamaProvider | GeminiProvider

datatype property = OwnProperty LlmProvider | ObjectPrototypeMember string

definition providers :: "(string \<times> LlmProvider) list" where
  "providers = [(''ollama'', OllamaProvider), (''gemini'', GeminiProvider)]"

definition objectPrototypeMembers :: "string list" where
  "objectPrototypeMembers =
     [''constructor'', ''__proto__'', ''hasOwnProperty'', ''isPrototypeOf'',
      ''propertyIsEnumerable'', ''toLocaleString'', ''toString'', ''valueOf'',
      ''__defineGetter__'', ''__defineSetter__'', ''__lookupGetter__'', ''__lookupSetter__'']"

definition getProperty :: "(string \<times> LlmProvider) list \<Rightarrow> string \<Rightarrow> property option" where
  "getProperty obj key =
     (case map_of obj key of
        Some v \<Rightarrow> Some (OwnProperty v)
      | None \<Rightarrow> if key \<in> set objectPrototypeMembers then Some (ObjectPrototypeMember key) else None)"

definition objectKeys :: "(string \<times> LlmProvider) list \<Rightarrow> string list" where
  "objectKeys obj = map fst obj"

definition getLlmProvider :: "string \<Rightarrow> js_error + property" where
  "getLlmProvider providerName =
     (case getProperty providers (toLowerCase providerName) of
        None \<Rightarrow>
          Inl (Error None (''LLM provider '' @ [CHR 0x27] @ providerName @ [CHR 0x27]
                 @ '' not found. Available providers: '' @ join '', '' (objectKeys providers)))
      | Some provider \<Rightarrow> Inr provider)"

text \<open>
  The interface \<^verbatim>\<open>LlmProvider\<close>: the methods of the two implementations by dynamic dispatch,
  and the factory functions \<^verbatim>\<open>createChatLlm\<close> and \<^verbatim>\<open>createEmbedder\<close>, which resolve the
  provider by name first.  A member of \<^verbatim>\<open>Object.prototype\<close> has no such method, and the
  call on it throws a \<^verbatim>\<open>TypeError\<close>.
\<close>

datatype ChatLlm = OllamaChat OllamaChatLlm | GeminiChat GeminiChatLlm

datatype Embedder = OllamaEmbedding OllamaEmbedder | GeminiEmbedding GeminiEmbedder

fun getName :: "LlmProvider \<Rightarrow> string" where
  "getName OllamaProvider = ''ollama''"
| "getName GeminiProvider = ''gemini''"

fun requiresApiKey :: "LlmProvider \<Rightarrow> bool" where
  "requiresApiKey OllamaProvider = False"
| "requiresApiKey GeminiProvider = True"

fun LlmProvider_createChatLlm :: "LlmProvider \<Rightarrow> LlmProviderConfig \<Rightarrow> js_error + ChatLlm" where
  "LlmProvider_createChatLlm OllamaProvider config =
     Inr (OllamaChat (OllamaProvider_createChatLlm config))"
| "LlmProvider_createChatLlm GeminiProvider config =
     (case GeminiProvider_createChatLlm config of
        Inl error \<Rightarrow> Inl error
      | Inr llm \<Rightarrow> Inr (GeminiChat llm))"

fun LlmProvider_createEmbedder :: "LlmProvider \<Rightarrow> LlmProviderConfig \<Rightarrow> js_error + Embedder" where
  "LlmProvider_createEmbedder OllamaProvider config =
     Inr (OllamaEmbedding (OllamaProvider_createEmbedder config))"
| "LlmProvider_createEmbedder GeminiProvider config =
     (case GeminiProvider_createEmbedder config of
        Inl error \<Rightarrow> Inl error
      | Inr e \<Rightarrow> Inr (GeminiEmbedding e))"

definition createChatLlm :: "string \<Rightarrow> LlmProviderConfig \<Rightarrow> js_error + ChatLlm" where
  "createChatLlm providerName config =
     (case getLlmProvider providerName of
        Inl error \<Rightarrow> Inl error
      | Inr (OwnProperty provider) \<Rightarrow> LlmProvider_createChatLlm provider config
      | Inr (ObjectPrototypeMember member) \<Rightarrow>
          Inl (Error None ''provider.createChatLlm is not a function''))"

definition createEmbedder :: "string \<Rightarrow> LlmProviderConfig \<Rightarrow> js_error + Embedder" where
  "createEmbedder providerName config =
     (case getLlmProvider providerName of
        Inl error \<Rightarrow> Inl error
      | Inr (OwnProperty provider) \<Rightarrow> LlmProvider_createEmbedder provider config
      | Inr (ObjectPrototypeMember member) \<Rightarrow>
          Inl (Error None ''provider.createEmbedder is not a function''))"

section \<open>Concrete worlds\<close>

text \<open>
  Backends and inputs at which the statements below are evaluated.  The state of these
  worlds is the number of requests they have received.
\<close>

definition no_jitter :: "nat \<Rightarrow> real" where
  "no_jitter k = 0"

definition connection_refused :: js_error where
  "connection_refused = Error (Some ''ECONNREFUSED'') ''connect ECONNREFUSED 127.0.0.1:11434''"


definition refusing_operation :: "nat \<Rightarrow> (js_error + real list) \<times> nat" where
  "refusing_operation = failing (\<lambda>c. Error None (''failure '' @ replicate c CHR ''I''))"

definition refusing_post :: "(GenerateData, nat) http_post" where
  "refusing_post req c = (Inl connection_refused, Suc c)"


definition refusing_embeddings_post :: "(EmbeddingsData, nat) http_post" where
  "refusing_embeddings_post req c = (Inl connection_refused, Suc c)"

definition refusing_generateContent :: "nat generate_content" where
  "refusing_generateContent contents ms c =
     (ApiSettled (Inl (Error None ''fetch failed'')), Suc c)"

definition slow_generateContent :: "nat generate_content" where
  "slow_generateContent contents ms c = (TimerFired, Suc c)"

definition refusing_embedContent :: "GeminiMessage \<Rightarrow> nat \<Rightarrow> (js_error + EmbedContentResponse) \<times> nat" where
  "refusing_embedContent c_content c = (Inl (Error None ''fetch failed''), Suc c)"

definition empty_config :: LlmProviderConfig where
  "empty_config =
     \<lparr>apiKey = None, baseUrl = None, model = None, embeddingModel = None, timeout = None,
      numOfAttempts = None, maxDelay = None, startingDelay = None\<rparr>"

definition gemini_llm :: GeminiChatLlm where
  "gemini_llm = \<lparr>chat_apiKey = ''key'', chat_model = ''gemini-pro'', chat_timeout = 60000\<rparr>"

definition hello :: "Message list" where
  "hello = [\<lparr>role = ''system'', content = ''Be brief.''\<rparr>, \<lparr>role = ''user'', content = ''Hello''\<rparr>]"

definition conversation :: "Message list" where
  "conversation =
     [\<lparr>role = ''system'', content = ''Be brief.''\<rparr>, \<lparr>role = ''assistant'', content = ''Hi''\<rparr>,
      \<lparr>role = ''system'', content = ''Use English.''\<rparr>, \<lparr>role = ''user'', content = ''Hello''\<rparr>,
      \<lparr>role = ''user'', content = ''Again''\<rparr>]"

definition no_user_conversation :: "Message list" where
  "no_user_conversation =
     [\<lparr>role = ''system'', content = ''Be brief.''\<rparr>, \<lparr>role = ''assistant'', content = ''Hi''\<rparr>]"

definition negative_attempts_config :: LlmProviderConfig where
  "negative_attempts_config = empty_config\<lparr>numOfAttempts := Some (- 1)\<rparr>"

definition zero_config :: LlmProviderConfig where
  "zero_config = empty_config\<lparr>numOfAttempts := Some 0, maxDelay := Some 0, startingDelay := Some 0\<rparr>"

definition gemini_embedder :: GeminiEmbedder where
  "gemini_embedder = \<lparr>gemini_embedder_apiKey = ''key'', gemini_embedder_model = ''embedding-001''\<rparr>"

section \<open>Properties of the backoff executor\<close>

lemma after_calls_0: "after_calls fn 0 s = s"
  by (simp add: after_calls_def)

lemma after_calls_Suc: "after_calls fn (Suc k) s = after_calls fn k (snd (fn s))"
  by (simp add: after_calls_def funpow_Suc_right del: funpow.simps)

lemma counted_apply: "counted fn (c, s) = (fst (fn s), Suc c, snd (fn s))"
  by (simp add: counted_def split: prod.splits)

lemma after_calls_counted: "after_calls (counted fn) k (c, s) = (c + k, after_calls fn k s)"
  by (induction k arbitrary: c s) (simp_all add: after_calls_0 after_calls_Suc counted_apply)

text \<open>One iteration of the loop, by the outcome of the invocation.\<close>

lemma withBackoff_loop_success:
  "a < n \<Longrightarrow> fn s = (Inr v, s') \<Longrightarrow> withBackoff_loop n md rnd fn a d s rs = (Inr v, s', rs)"
  by (subst withBackoff_loop.simps) simp

lemma withBackoff_loop_last:
  "a < n \<Longrightarrow> n \<le> a + 1 \<Longrightarrow> fn s = (Inl e, s') \<Longrightarrow>
     withBackoff_loop n md rnd fn a d s rs = (Inl e, s', rs)"
  by (subst withBackoff_loop.simps) simp

lemma withBackoff_loop_retry:
  "a + 1 < n \<Longrightarrow> fn s = (Inl e, s') \<Longrightarrow>
     withBackoff_loop n md rnd fn a d s rs =
     withBackoff_loop n md rnd fn (a + 1) (min (d * 2) md) s'
       (rs @ [\<lparr>retry_attempt = a + 1, retry_delay = min (d * 2) md,
               retry_actualDelay = real_of_int (min (d * 2) md)
                 + rnd (length rs) * 0.1 * real_of_int (min (d * 2) md)\<rparr>])"
  by (subst withBackoff_loop.simps) (simp add: Let_def)

lemma withBackoff_loop_exhausted:
  "\<not> a < n \<Longrightarrow> withBackoff_loop n md rnd fn a d s rs =
     (Inl (Error None ''Should not reach here''), s, rs)"
  by (subst withBackoff_loop.simps) simp

text \<open>While attempts remain, the loop returns what some invocation of \<open>fn\<close> returned.\<close>

lemma withBackoff_loop_outcome:
  "nat (n - a) = Suc j \<Longrightarrow>
     \<exists>k\<le>j. fst (withBackoff_loop n md rnd fn a d s rs) = fst (fn (after_calls fn k s)) \<and>
            fst (snd (withBackoff_loop n md rnd fn a d s rs)) = after_calls fn (Suc k) s"
proof (induction j arbitrary: a d s rs)
  case 0
  then have lt: "a < n" "n \<le> a + 1" by linarith+
  obtain r s' where fn: "fn s = (r, s')" by (cases "fn s")
  have "fst (withBackoff_loop n md rnd fn a d s rs) = fst (fn (after_calls fn 0 s)) \<and>
        fst (snd (withBackoff_loop n md rnd fn a d s rs)) = after_calls fn (Suc 0) s"
    using lt fn
    by (cases r)
       (simp_all add: withBackoff_loop_last withBackoff_loop_success after_calls_def)
  then show ?case by blast
next
  case (Suc j)
  then have lt: "a < n" "a + 1 < n" and j: "nat (n - (a + 1)) = Suc j" by linarith+
  obtain r s' where fn: "fn s = (r, s')" by (cases "fn s")
  show ?case
  proof (cases r)
    case (Inr v)
    then have "fst (withBackoff_loop n md rnd fn a d s rs) = fst (fn (after_calls fn 0 s)) \<and>
               fst (snd (withBackoff_loop n md rnd fn a d s rs)) = after_calls fn (Suc 0) s"
      using lt fn by (simp add: withBackoff_loop_success after_calls_def)
    then show ?thesis by blast
  next
    case (Inl e)
    with fn have fn': "fn s = (Inl e, s')" by simp
    note step = withBackoff_loop_retry [where fn = fn and s = s and md = md and rnd = rnd and d = d and rs = rs, OF lt(2) fn']
    from Suc.IH [OF j] obtain k where
      k: "k \<le> j"
        "fst (withBackoff_loop n md rnd fn a d s rs) = fst (fn (after_calls fn k s'))"
        "fst (snd (withBackoff_loop n md rnd fn a d s rs)) = after_calls fn (Suc k) s'"
      unfolding step by blast
    have "Suc k \<le> Suc j" using k(1) by simp
    moreover have "fst (withBackoff_loop n md rnd fn a d s rs) = fst (fn (after_calls fn (Suc k) s))"
      using k(2) fn' by (simp add: after_calls_Suc [of fn k s])
    moreover have "fst (snd (withBackoff_loop n md rnd fn a d s rs)) = after_calls fn (Suc (Suc k)) s"
      using k(3) fn' by (simp add: after_calls_Suc [of fn "Suc k" s])
    ultimately show ?thesis by blast
  qed
qed

text \<open>An operation that fails every time is invoked until no attempt remains.\<close>

lemma withBackoff_loop_failing:
  assumes fails: "\<And>t. isl (fst (fn t))"
  shows "nat (n - a) = Suc k \<Longrightarrow>
    fst (withBackoff_loop n md rnd fn a d s rs) = fst (fn (after_calls fn k s)) \<and>
    fst (snd (withBackoff_loop n md rnd fn a d s rs)) = after_calls fn (Suc k) s"
proof (induction k arbitrary: a d s rs)
  case 0
  then have lt: "a < n" "n \<le> a + 1" by linarith+
  obtain e s' where fn: "fn s = (Inl e, s')"
    using fails [of s] by (cases "fn s"; cases "fst (fn s)") auto
  show ?case
    using lt fn by (simp add: withBackoff_loop_last after_calls_def)
next
  case (Suc k)
  obtain e s' where fn: "fn s = (Inl e, s')"
    using fails [of s] by (cases "fn s"; cases "fst (fn s)") auto
  from Suc.prems have lt: "a + 1 < n" and k: "nat (n - (a + 1)) = Suc k" by linarith+
  note step = withBackoff_loop_retry [where fn = fn and s = s and md = md and rnd = rnd and d = d and rs = rs, OF lt fn]
  show ?case
    unfolding step using Suc.IH [OF k] fn
    by (simp add: after_calls_Suc [of fn "Suc k" s] after_calls_Suc [of fn k s])
qed

lemma withBackoff_loop_fails:
  assumes fails: "\<And>t. isl (fst (fn t))"
  shows "isl (fst (withBackoff_loop n md rnd fn a d s rs))"
proof (cases "a < n")
  case True
  then obtain k where "nat (n - a) = Suc k" by (cases "nat (n - a)") auto
  from withBackoff_loop_failing [OF fails this] fails show ?thesis by simp
next
  case False
  then show ?thesis by (simp add: withBackoff_loop_exhausted)
qed

lemma counted_fails: "(\<And>t. isl (fst (fn t))) \<Longrightarrow> isl (fst (counted fn t))"
  by (cases t) (simp add: counted_apply)

text \<open>
  C3: for every number of attempts \<open>n \<ge> 1\<close>, an operation that fails on every invocation
  is invoked by \<^verbatim>\<open>withBackoff\<close> exactly \<open>n\<close> times, and \<^verbatim>\<open>withBackoff\<close> then fails with the
  failure of the last, \<open>n\<close>-th, invocation, the one made in the state that \<open>n - 1\<close>
  invocations have left behind.
\<close>

theorem withBackoff_failing_invocations:
  assumes "1 \<le> n" and "\<forall>t. isl (fst (fn t))"
  shows "case withBackoff n md sd rnd (counted fn) (0, s) of
           (r, (calls, s'), retries) \<Rightarrow>
             calls = nat n \<and> isl r \<and> r = fst (fn (after_calls fn (nat n - 1) s))"
proof -
  from assms(1) obtain k where k: "nat (n - 0) = Suc k" by (cases "nat n") auto
  have f: "\<And>t. isl (fst (counted fn t))"
    using assms(2) by (simp add: counted_fails)
  from withBackoff_loop_failing [of "counted fn" n 0 k md rnd sd "(0, s)" "[]", OF f k]
    assms(2) k
  show ?thesis
    by (auto simp: withBackoff_def after_calls_counted counted_apply split: prod.splits)
qed

theorem withBackoff_failing_invocations_witness:
  "(1::int) \<le> 3 \<and> (\<forall>t. isl (fst (refusing_operation t))) \<and>
   (case withBackoff 3 5000 1000 no_jitter (counted refusing_operation) (0, 0) of
      (r, (calls, s'), retries) \<Rightarrow>
        calls = 3 \<and> isl r \<and> r = Inl (Error None ''failure II''))"
proof -
  have h: "\<forall>t. isl (fst (refusing_operation t))"
    by (simp add: refusing_operation_def failing_def)
  show ?thesis
    using withBackoff_failing_invocations
      [where n = 3 and md = 5000 and sd = 1000 and rnd = no_jitter and s = 0,
       OF _ h] h
    by (auto simp: refusing_operation_def failing_def after_calls_def numeral_2_eq_2
          split: prod.splits)
qed

text \<open>
  The base delays of the retries.  The delay is doubled and capped before it is used, so
  the retry that precedes attempt \<open>k + 1\<close> waits \<open>min (startingDelay * 2 ^ k) maxDelay\<close>
  (for a \<open>maxDelay\<close> that is not negative).
\<close>

lemma doubled_capped:
  fixes md :: int
  assumes f: "\<And>x. f x = min (x * 2) md" and md: "0 \<le> md"
  shows "(f ^^ Suc j) d = min (d * 2 ^ Suc j) md"
  using md by (induction j) (auto simp: f min_def)

lemma withBackoff_loop_failing_delays:
  assumes fails: "\<And>t. isl (fst (fn t))" and f: "\<And>x. f x = min (x * 2) md"
  shows "nat (n - a) = Suc k \<Longrightarrow>
    map retry_delay (snd (snd (withBackoff_loop n md rnd fn a d s rs))) =
      map retry_delay rs @ map (\<lambda>j. (f ^^ j) d) [1..<Suc k]"
proof (induction k arbitrary: a d s rs)
  case 0
  then have lt: "a < n" "n \<le> a + 1" by linarith+
  obtain e s' where fn: "fn s = (Inl e, s')"
    using fails [of s] by (cases "fn s"; cases "fst (fn s)") auto
  show ?case
    using lt fn by (simp add: withBackoff_loop_last)
next
  case (Suc k)
  obtain e s' where fn: "fn s = (Inl e, s')"
    using fails [of s] by (cases "fn s"; cases "fst (fn s)") auto
  from Suc.prems have lt: "a + 1 < n" and k: "nat (n - (a + 1)) = Suc k" by linarith+
  note step = withBackoff_loop_retry
    [where fn = fn and s = s and md = md and rnd = rnd and d = d and rs = rs, OF lt fn]
  have "[2..<Suc (Suc k)] = map Suc [1..<Suc k]"
    by (simp add: map_Suc_upt numeral_2_eq_2)
  then have shift: "map (\<lambda>j. (f ^^ j) (f d)) [1..<Suc k] = map (\<lambda>j. (f ^^ j) d) [2..<Suc (Suc k)]"
    by (simp add: funpow_swap1 comp_def del: upt_Suc)
  have upt: "[1..<Suc (Suc k)] = 1 # [2..<Suc (Suc k)]"
    by (simp add: upt_conv_Cons numeral_2_eq_2 del: upt_Suc)
  show ?case
    unfolding step Suc.IH [OF k] f [symmetric] shift upt by simp
qed

lemma withBackoff_failing_delays:
  assumes "1 \<le> n" and "\<And>t. isl (fst (fn t))" and "0 \<le> md"
  shows "map retry_delay (snd (snd (withBackoff n md sd rnd fn s))) =
           map (\<lambda>k. min (sd * 2 ^ k) md) [1..<nat n]"
proof -
  define f where "f = (\<lambda>x. min (x * 2) md)"
  then have f: "\<And>x. f x = min (x * 2) md" by simp
  from assms(1) obtain k where k: "nat (n - 0) = Suc k" by (cases "nat n") auto
  have "map (\<lambda>j. (f ^^ j) sd) [1..<Suc k] = map (\<lambda>j. min (sd * 2 ^ j) md) [1..<Suc k]"
  proof (rule map_cong [OF refl])
    fix j assume "j \<in> set [1..<Suc k]"
    then have "1 \<le> j" by (simp del: upt_Suc)
    then obtain i where "j = Suc i" by (cases j) auto
    then show "(f ^^ j) sd = min (sd * 2 ^ j) md"
      using doubled_capped [of f md i sd, OF f assms(3)] by simp
  qed
  with withBackoff_loop_failing_delays
         [where fn = fn and f = f and md = md and rnd = rnd and d = sd and s = s and rs = "[]",
          OF assms(2) f k] k
  show ?thesis by (simp add: withBackoff_def)
qed

text \<open>
  C1: the base delay before attempt \<open>k \<ge> 2\<close> should be
  \<open>min (startingDelay * 2 ^ (k - 2)) maxDelay\<close>, so \<open>startingDelay\<close> before the first retry,
  as the documentation of the option \<^verbatim>\<open>startingDelay\<close> says (``starting delay for the
  first retry'').  The loop doubles the delay before it first uses it: with the default
  options (three attempts, \<open>startingDelay = 1000\<close>, \<open>maxDelay = 5000\<close>) the retries before
  attempts 2 and 3 wait 2000 and 4000 milliseconds, where the stated formula gives 1000
  and 2000.
\<close>

theorem withBackoff_first_retry_waits_twice_startingDelay:
  "map retry_delay (snd (snd (withBackoff 3 5000 1000 rnd refusing_operation 0))) = [2000, 4000]"
  by (simp add: withBackoff_def withBackoff_loop.simps refusing_operation_def failing_def)

section \<open>Properties of the chat adapters\<close>

lemma apologies_nonempty: "timeout_apology \<noteq> []" "technical_apology \<noteq> []"
  by (simp_all add: timeout_apology_def technical_apology_def)


lemma gemini_answer_of_failure:
  assumes "race (fst (generateContent (geminiChatMessages messages) (chat_timeout llm) s)) = Inl e"
  shows "fst (GeminiProvider_answerQuestionAwaited llm generateContent messages s) =
           Inr \<lparr>role = ''assistant'',
                content = (if gemini_isTimeout e then timeout_apology else technical_apology)\<rparr>"
  using assms
  by (cases "generateContent (geminiChatMessages messages) (chat_timeout llm) s")
     (simp add: GeminiProvider_answerQuestionAwaited_def Let_def)

lemma ollama_answer_of_failure:
  assumes "fst (post (generate_request llm messages) s) = Inl e"
  shows "fst (Ollama_answerQuestionAwaited llm post messages s) =
           Inr \<lparr>role = ''assistant'',
                content = (if ollama_isTimeout e then timeout_apology else technical_apology)\<rparr>"
  using assms
  by (cases "post (generate_request llm messages) s")
     (simp add: Ollama_answerQuestionAwaited_def)

text \<open>
  C2: when the backend call of a chat request fails, by the timer firing first or by a
  rejection of the call, \<^verbatim>\<open>answerQuestionAwaited\<close> does not throw: it returns a message
  with role \<^verbatim>\<open>assistant\<close> whose content is one of the two fixed apologies, which are not
  empty, so that nothing of the error reaches the caller.  This holds for the Gemini
  adapter and for the Ollama adapters (\<^verbatim>\<open>OllamaProvider.createChatLlm\<close> and \<^verbatim>\<open>makeOllamaLlm\<close>
  share the function), for every message list.
\<close>

theorem answerQuestionAwaited_failure_apology:
  "(isl (race (fst (generateContent (geminiChatMessages messages) (chat_timeout g) s))) \<longrightarrow>
      (\<exists>r. fst (GeminiProvider_answerQuestionAwaited g generateContent messages s) = Inr r
           \<and> role r = ''assistant'' \<and> content r \<noteq> []
           \<and> content r \<in> {timeout_apology, technical_apology}))
   \<and> (isl (fst (post (generate_request llm messages) t)) \<longrightarrow>
      (\<exists>r. fst (Ollama_answerQuestionAwaited llm post messages t) = Inr r
           \<and> role r = ''assistant'' \<and> content r \<noteq> []
           \<and> content r \<in> {timeout_apology, technical_apology}))
   \<and> timeout_apology =
       ''I apologize, but I'' @ [CHR 0x27] @ ''m having trouble processing your request at the moment. The response is taking longer than expected. Please try a simpler query or try again later.''
   \<and> technical_apology =
       ''I apologize, but I'' @ [CHR 0x27] @ ''m experiencing technical difficulties at the moment. Please try again later.''"
proof (intro conjI impI)
  assume "isl (race (fst (generateContent (geminiChatMessages messages) (chat_timeout g) s)))"
  then obtain e where
    "race (fst (generateContent (geminiChatMessages messages) (chat_timeout g) s)) = Inl e"
    by (auto simp: isl_def)
  from gemini_answer_of_failure
         [where generateContent = generateContent and messages = messages and llm = g and s = s,
          OF this]
  show "\<exists>r. fst (GeminiProvider_answerQuestionAwaited g generateContent messages s) = Inr r
           \<and> role r = ''assistant'' \<and> content r \<noteq> []
           \<and> content r \<in> {timeout_apology, technical_apology}"
    by (simp add: apologies_nonempty)
next
  assume "isl (fst (post (generate_request llm messages) t))"
  then obtain e where "fst (post (generate_request llm messages) t) = Inl e"
    by (auto simp: isl_def)
  from ollama_answer_of_failure
         [where post = post and messages = messages and llm = llm and s = t, OF this]
  show "\<exists>r. fst (Ollama_answerQuestionAwaited llm post messages t) = Inr r
           \<and> role r = ''assistant'' \<and> content r \<noteq> []
           \<and> content r \<in> {timeout_apology, technical_apology}"
    by (simp add: apologies_nonempty)
qed (simp_all add: timeout_apology_def technical_apology_def)

theorem answerQuestionAwaited_failure_apology_witness:
  "isl (race (fst (slow_generateContent (geminiChatMessages hello) (chat_timeout gemini_llm) 0)))
   \<and> fst (GeminiProvider_answerQuestionAwaited gemini_llm slow_generateContent hello 0) =
       Inr \<lparr>role = ''assistant'', content = timeout_apology\<rparr>
   \<and> isl (fst (refusing_post
        (generate_request (makeOllamaLlm ''http://localhost:11434'' ''llama3'') hello) 0))
   \<and> fst (Ollama_answerQuestionAwaited (makeOllamaLlm ''http://localhost:11434'' ''llama3'')
        refusing_post hello 0) = Inr \<lparr>role = ''assistant'', content = technical_apology\<rparr>"
  using answerQuestionAwaited_failure_apology
    [of slow_generateContent hello gemini_llm 0 refusing_post
        "makeOllamaLlm ''http://localhost:11434'' ''llama3''" 0]
  by (simp add: slow_generateContent_def refusing_post_def race_def
        GeminiProvider_answerQuestionAwaited_def Ollama_answerQuestionAwaited_def
        gemini_isTimeout_def ollama_isTimeout_def connection_refused_def)




section \<open>Properties of adapter construction\<close>

text \<open>
  C9: an adapter whose \<^verbatim>\<open>requiresApiKey\<close> is true, which is the Gemini adapter, throws in
  \<^verbatim>\<open>createChatLlm\<close> and in \<^verbatim>\<open>createEmbedder\<close> when the configured \<^verbatim>\<open>apiKey\<close> is absent (or
  empty).  Construction is a function of the configuration alone: it has no access to
  the backend, and when it throws there is no chat or embed function that a later call
  could reach.
\<close>

theorem requiresApiKey_fails_at_construction:
  "requiresApiKey provider \<Longrightarrow> \<not> truthy (apiKey config) \<Longrightarrow>
     provider = GeminiProvider
     \<and> LlmProvider_createChatLlm provider config =
         Inl (Error None ''Gemini provider requires an API key'')
     \<and> LlmProvider_createEmbedder provider config =
         Inl (Error None ''Gemini provider requires an API key'')
     \<and> GeminiProvider_createChatLlm config =
         Inl (Error None ''Gemini provider requires an API key'')
     \<and> GeminiProvider_createEmbedder config =
         Inl (Error None ''Gemini provider requires an API key'')"
  by (cases provider)
     (simp_all add: GeminiProvider_createChatLlm_def GeminiProvider_createEmbedder_def)

theorem requiresApiKey_fails_at_construction_witness:
  "requiresApiKey GeminiProvider \<and> \<not> truthy (apiKey empty_config)
   \<and> LlmProvider_createChatLlm GeminiProvider empty_config =
       Inl (Error None ''Gemini provider requires an API key'')
   \<and> LlmProvider_createEmbedder GeminiProvider empty_config =
       Inl (Error None ''Gemini provider requires an API key'')"
proof -
  have h: "requiresApiKey GeminiProvider" "\<not> truthy (apiKey empty_config)"
    by (simp_all add: truthy_def empty_config_def)
  from requiresApiKey_fails_at_construction [OF h] h show ?thesis by simp
qed

lemma GeminiProvider_with_apiKey:
  "truthy (apiKey config) \<Longrightarrow>
     \<not> isl (GeminiProvider_createChatLlm config) \<and> \<not> isl (GeminiProvider_createEmbedder config)"
  by (simp add: GeminiProvider_createChatLlm_def GeminiProvider_createEmbedder_def)

section \<open>Properties of the provider registry\<close>

lemma str_includes_prefix: "prefix sub s \<Longrightarrow> str_includes s sub"
  by (cases s) simp_all

lemma str_includes_append: "str_includes (xs @ sub @ ys) sub"
proof (induction xs)
  case Nil
  show ?case by (simp add: str_includes_prefix)
next
  case (Cons x xs)
  then show ?case by simp
qed

text \<open>
  A name that, in lower case, is neither a key of \<^verbatim>\<open>providers\<close> nor a member of
  \<^verbatim>\<open>Object.prototype\<close> is rejected, and the message names every registered provider.
\<close>

lemma getLlmProvider_unknown:
  assumes "toLowerCase providerName \<notin> set (objectKeys providers)"
    and "toLowerCase providerName \<notin> set objectPrototypeMembers"
  shows "\<exists>e. getLlmProvider providerName = Inl e
           \<and> (\<forall>k\<in>set (objectKeys providers). str_includes (message e) k)"
proof -
  have none: "map_of providers (toLowerCase providerName) = None"
    using assms(1) by (simp add: objectKeys_def map_of_eq_None_iff)
  define pre where "pre = ''LLM provider '' @ [CHR 0x27] @ providerName @ [CHR 0x27]
                 @ '' not found. Available providers: ''"
  have eq: "getLlmProvider providerName = Inl (Error None (pre @ ''ollama, gemini''))"
    using none assms(2)
    by (simp add: getLlmProvider_def getProperty_def pre_def objectKeys_def providers_def)
  have "str_includes (pre @ ''ollama'' @ '', gemini'') ''ollama''"
    by (rule str_includes_append)
  moreover have "str_includes ((pre @ ''ollama, '') @ ''gemini'' @ []) ''gemini''"
    by (rule str_includes_append)
  ultimately show ?thesis
    by (simp add: eq objectKeys_def providers_def)
qed

text \<open>
  C8: every provider name that is not registered should make \<^verbatim>\<open>getLlmProvider\<close> throw the
  error that lists the registered names, as its documentation says (``throws Error if
  the provider is not found'').  The name \<^verbatim>\<open>constructor\<close> is not registered, but the
  lookup \<^verbatim>\<open>providers["constructor"]\<close> finds the member that every object inherits from
  \<^verbatim>\<open>Object.prototype\<close>, which is truthy, and \<^verbatim>\<open>getLlmProvider\<close> returns it instead of
  throwing.
\<close>

theorem getLlmProvider_constructor_not_rejected:
  "''constructor'' \<notin> set (objectKeys providers)
   \<and> getLlmProvider ''constructor'' = Inr (ObjectPrototypeMember ''constructor'')"
  by (simp add: getLlmProvider_def getProperty_def objectKeys_def providers_def
        objectPrototypeMembers_def toLowerCase_def toLowerChar_def)

lemma factory_requires_apiKey:
  "\<not> truthy (apiKey config) \<Longrightarrow>
     createChatLlm ''gemini'' config = Inl (Error None ''Gemini provider requires an API key'')
     \<and> createEmbedder ''gemini'' config = Inl (Error None ''Gemini provider requires an API key'')"
  by (simp add: createChatLlm_def createEmbedder_def getLlmProvider_def getProperty_def
        providers_def toLowerCase_def toLowerChar_def GeminiProvider_createChatLlm_def
        GeminiProvider_createEmbedder_def)

lemma getLlmProvider_case_insensitive:
  "getLlmProvider ''OLLAMA'' = Inr (OwnProperty OllamaProvider)
   \<and> getLlmProvider ''ollama'' = Inr (OwnProperty OllamaProvider)
   \<and> getLlmProvider ''Gemini'' = Inr (OwnProperty GeminiProvider)"
  by code_simp

section \<open>Properties of the embedders\<close>

lemma embeddings_call_fails:
  "isl (fst (post (embeddings_request e txt) t)) \<Longrightarrow> isl (fst (embeddings_call e post txt t))"
  by (cases "post (embeddings_request e txt) t")
     (auto simp: embeddings_call_def isl_def)

lemma embeddings_call_counted:
  "embeddings_call e (\<lambda>req. counted (post req)) txt = counted (embeddings_call e post txt)"
proof
  fix x :: "nat \<times> 'a"
  obtain c t where x: "x = (c, t)" by (cases x)
  obtain r t' where p: "post (embeddings_request e txt) t = (r, t')"
    by (cases "post (embeddings_request e txt) t")
  show "embeddings_call e (\<lambda>req. counted (post req)) txt x = counted (embeddings_call e post txt) x"
    by (simp add: x p embeddings_call_def counted_apply split: sum.splits option.splits)
qed

text \<open>
  C4: an embed call whose backend call fails on every attempt ends in a failure and
  returns no \<^verbatim>\<open>EmbedResult\<close> at all, so never an empty embedding.  For the Ollama embedder
  (the closure of \<^verbatim>\<open>makeOllamaEmbedder\<close> or of \<^verbatim>\<open>OllamaProvider.createEmbedder\<close>) the request
  has then been sent once per attempt when the number of attempts is at least 1; the
  Gemini embedder makes a single attempt and rethrows.
\<close>

theorem embed_failure_propagates:
  "((\<forall>t. isl (fst (post (embeddings_request e txt) t))) \<longrightarrow>
      (\<exists>err. fst (Ollama_embed e rnd post txt s) = Inl err)
      \<and> (1 \<le> embedder_numOfAttempts e \<longrightarrow>
           fst (fst (snd (Ollama_embed e rnd (\<lambda>req. counted (post req)) txt (0, s)))) =
             nat (embedder_numOfAttempts e)))
   \<and> (isl (fst (embedContent \<lparr>gemini_role = ''user'', parts = [\<lparr>part_text = txt\<rparr>]\<rparr> s')) \<longrightarrow>
      (\<exists>err. fst (GeminiProvider_embed g embedContent txt s') = Inl err))"
proof (intro conjI impI)
  assume fails: "\<forall>t. isl (fst (post (embeddings_request e txt) t))"
  then have f: "\<And>t. isl (fst (embeddings_call e post txt t))"
    by (simp add: embeddings_call_fails)
  have "isl (fst (embedText e rnd post txt s))"
    unfolding embedText_def withBackoff_def by (rule withBackoff_loop_fails) (rule f)
  then show "\<exists>err. fst (Ollama_embed e rnd post txt s) = Inl err"
    by (cases "embedText e rnd post txt s") (auto simp: Ollama_embed_def isl_def)
  assume n: "1 \<le> embedder_numOfAttempts e"
  then obtain k where k: "nat (embedder_numOfAttempts e - 0) = Suc k"
    by (cases "nat (embedder_numOfAttempts e)") auto
  have fc: "\<And>t. isl (fst (counted (embeddings_call e post txt) t))"
    using f by (rule counted_fails)
  have "fst (snd (embedText e rnd (\<lambda>req. counted (post req)) txt (0, s))) =
          after_calls (counted (embeddings_call e post txt)) (Suc k) (0, s)"
    unfolding embedText_def withBackoff_def embeddings_call_counted
    using withBackoff_loop_failing [OF fc k] by simp
  then have "fst (fst (snd (embedText e rnd (\<lambda>req. counted (post req)) txt (0, s)))) = Suc k"
    by (simp add: after_calls_counted)
  then show "fst (fst (snd (Ollama_embed e rnd (\<lambda>req. counted (post req)) txt (0, s)))) =
               nat (embedder_numOfAttempts e)"
    using k
    by (cases "embedText e rnd (\<lambda>req. counted (post req)) txt (0, s)")
       (auto simp: Ollama_embed_def split: sum.splits)
next
  assume "isl (fst (embedContent \<lparr>gemini_role = ''user'', parts = [\<lparr>part_text = txt\<rparr>]\<rparr> s'))"
  then show "\<exists>err. fst (GeminiProvider_embed g embedContent txt s') = Inl err"
    by (cases "embedContent \<lparr>gemini_role = ''user'', parts = [\<lparr>part_text = txt\<rparr>]\<rparr> s'")
       (auto simp: GeminiProvider_embed_def isl_def)
qed

theorem embed_failure_propagates_witness:
  "(\<forall>t. isl (fst (refusing_embeddings_post
       (embeddings_request (OllamaProvider_createEmbedder empty_config) ''text'') t)))
   \<and> 1 \<le> embedder_numOfAttempts (OllamaProvider_createEmbedder empty_config)
   \<and> isl (fst (refusing_embedContent
        \<lparr>gemini_role = ''user'', parts = [\<lparr>part_text = ''text''\<rparr>]\<rparr> 0))
   \<and> fst (Ollama_embed (OllamaProvider_createEmbedder empty_config) no_jitter refusing_embeddings_post
        ''text'' 0) = Inl connection_refused
   \<and> fst (fst (snd (Ollama_embed (OllamaProvider_createEmbedder empty_config) no_jitter
        (\<lambda>req. counted (refusing_embeddings_post req)) ''text'' (0, 0)))) = 3
   \<and> fst (GeminiProvider_embed gemini_embedder refusing_embedContent ''text'' 0) =
       Inl (Error None ''Failed to generate embeddings: fetch failed'')"
proof -
  let ?e = "OllamaProvider_createEmbedder empty_config"
  have e: "?e = \<lparr>embedder_baseUrl = ''http://localhost:11434'',
              embedder_model = ''nomic-embed-text'', embedder_numOfAttempts = 3,
              embedder_maxDelay = 5000, embedder_startingDelay = 1000\<rparr>"
    by (simp add: OllamaProvider_createEmbedder_def empty_config_def or_number_def or_string_def)
  have h1: "\<forall>t. isl (fst (refusing_embeddings_post (embeddings_request ?e ''text'') t))"
    by (simp add: refusing_embeddings_post_def)
  have h2: "1 \<le> embedder_numOfAttempts ?e"
    by (simp add: e)
  have h3: "isl (fst (refusing_embedContent
        \<lparr>gemini_role = ''user'', parts = [\<lparr>part_text = ''text''\<rparr>]\<rparr> 0))"
    by (simp add: refusing_embedContent_def)
  have r1: "fst (Ollama_embed ?e no_jitter refusing_embeddings_post ''text'' 0) = Inl connection_refused"
    unfolding e
    by (simp add: Ollama_embed_def embedText_def withBackoff_def withBackoff_loop.simps
          embeddings_call_def refusing_embeddings_post_def)
  have r2: "fst (GeminiProvider_embed gemini_embedder refusing_embedContent ''text'' 0) =
       Inl (Error None ''Failed to generate embeddings: fetch failed'')"
    by (simp add: GeminiProvider_embed_def refusing_embedContent_def)
  from h1 h2 h3 r1 r2 embed_failure_propagates
         [of refusing_embeddings_post ?e "''text''" no_jitter 0 refusing_embedContent 0 gemini_embedder]
  show ?thesis by (simp add: e)
qed

section \<open>Properties of the message conversion for Gemini\<close>

lemma findIndex_first:
  "\<forall>x\<in>set xs. \<not> p x \<Longrightarrow> p u \<Longrightarrow> findIndex p (xs @ u # ys) = Some (length xs)"
  by (induction xs) simp_all

lemma findIndex_none: "\<forall>x\<in>set xs. \<not> p x \<Longrightarrow> findIndex p xs = None"
  by (induction xs) simp_all

lemma gemini_role_system: "(gemini_role (toGeminiMessage m) = ''system'') = (role m = ''system'')"
  by (simp add: toGeminiMessage_def)

lemma gemini_role_user: "(gemini_role (toGeminiMessage m) = ''user'') = (role m = ''user'')"
  by (simp add: toGeminiMessage_def)

lemma filter_system_converted:
  "filter (\<lambda>msg. gemini_role msg = ''system'') (map toGeminiMessage ms) =
     map toGeminiMessage (filter (\<lambda>m. role m = ''system'') ms)"
  by (induction ms) (simp_all add: gemini_role_system)

lemma filter_nonsystem_converted:
  "filter (\<lambda>msg. gemini_role msg \<noteq> ''system'') (map toGeminiMessage ms) =
     map toGeminiMessage (filter (\<lambda>m. role m \<noteq> ''system'') ms)"
  by (induction ms) (simp_all add: gemini_role_system)

lemma system_texts:
  "map ((\<lambda>msg. part_text (parts msg ! 0)) \<circ> toGeminiMessage) ms = map content ms"
  by (simp add: toGeminiMessage_def)

lemma geminiChatMessages_merge:
  assumes sys: "filter (\<lambda>m. role m = ''system'') messages \<noteq> []"
    and rest: "filter (\<lambda>m. role m \<noteq> ''system'') messages = before @ u # after"
    and u: "role u = ''user''"
    and before: "\<forall>m\<in>set before. role m \<noteq> ''user''"
  shows "geminiChatMessages messages =
           map toGeminiMessage before
           @ \<lparr>gemini_role = ''user'',
               parts = [\<lparr>part_text = ''[System Instructions: ''
                  @ join blank_line (map content (filter (\<lambda>m. role m = ''system'') messages))
                  @ '']'' @ blank_line @ content u\<rparr>]\<rparr>
           # map toGeminiMessage after"
proof -
  let ?b = "map toGeminiMessage before" and ?a = "map toGeminiMessage after"
  let ?g = "toGeminiMessage u"
  have idx: "findIndex (\<lambda>msg. gemini_role msg = ''user'') (?b @ ?g # ?a) = Some (length before)"
    using findIndex_first [of ?b "\<lambda>msg. gemini_role msg = ''user''" ?g ?a] before u
    by (simp add: gemini_role_user)
  have nth: "(?b @ ?g # ?a) ! length before = ?g"
    by (simp add: nth_append)
  have upd: "\<And>v. (?b @ ?g # ?a)[length before := v] = ?b @ v # ?a"
    by (simp add: list_update_append)
  have sys': "map toGeminiMessage (filter (\<lambda>m. role m = ''system'') messages) \<noteq> []"
    using sys by simp
  have "geminiChatMessages messages =
          ?b @ ?g\<lparr>parts := (parts ?g)
                   [0 := \<lparr>part_text = ''[System Instructions: ''
                       @ join blank_line (map content (filter (\<lambda>m. role m = ''system'') messages))
                       @ '']'' @ blank_line @ part_text (parts ?g ! 0)\<rparr>]\<rparr> # ?a"
    using sys'
    by (simp add: geminiChatMessages_def Let_def filter_system_converted
          filter_nonsystem_converted rest system_texts idx nth upd)
  then show ?thesis
    using u by (simp add: toGeminiMessage_def)
qed

text \<open>
  C5: the conversation of a system message \<open>a\<close> and a user message \<open>b\<close> is sent to Gemini
  as the single user message \<^verbatim>\<open>[System Instructions: a]\<close>, a blank line, \<open>b\<close>.  In general,
  when there are system messages and the other messages contain a user message, the
  contents of the system messages, in their order and joined by blank lines, are
  wrapped as \<^verbatim>\<open>[System Instructions: ...]\<close>, followed by a blank line, and put in front of
  the content of the first user message; the other messages are converted unchanged.
\<close>

theorem gemini_system_messages_merged:
  "geminiChatMessages [\<lparr>role = ''system'', content = a\<rparr>, \<lparr>role = ''user'', content = b\<rparr>] =
     [\<lparr>gemini_role = ''user'',
       parts = [\<lparr>part_text = ''[System Instructions: '' @ a @ '']'' @ blank_line @ b\<rparr>]\<rparr>]
   \<and> (filter (\<lambda>m. role m = ''system'') messages \<noteq> []
      \<and> filter (\<lambda>m. role m \<noteq> ''system'') messages = before @ u # after
      \<and> role u = ''user'' \<and> (\<forall>m\<in>set before. role m \<noteq> ''user'') \<longrightarrow>
      geminiChatMessages messages =
        map toGeminiMessage before
        @ \<lparr>gemini_role = ''user'',
            parts = [\<lparr>part_text = ''[System Instructions: ''
               @ join blank_line (map content (filter (\<lambda>m. role m = ''system'') messages))
               @ '']'' @ blank_line @ content u\<rparr>]\<rparr>
        # map toGeminiMessage after)"
proof (intro conjI impI)
  show "geminiChatMessages [\<lparr>role = ''system'', content = a\<rparr>, \<lparr>role = ''user'', content = b\<rparr>] =
     [\<lparr>gemini_role = ''user'',
       parts = [\<lparr>part_text = ''[System Instructions: '' @ a @ '']'' @ blank_line @ b\<rparr>]\<rparr>]"
    by (simp add: geminiChatMessages_def toGeminiMessage_def)
qed (simp add: geminiChatMessages_merge)

theorem gemini_system_messages_merged_witness:
  "filter (\<lambda>m. role m = ''system'') conversation \<noteq> []
   \<and> filter (\<lambda>m. role m \<noteq> ''system'') conversation =
       [\<lparr>role = ''assistant'', content = ''Hi''\<rparr>] @ \<lparr>role = ''user'', content = ''Hello''\<rparr>
         # [\<lparr>role = ''user'', content = ''Again''\<rparr>]
   \<and> role \<lparr>role = ''user'', content = ''Hello''\<rparr> = ''user''
   \<and> list_all (\<lambda>m. role m \<noteq> ''user'') [\<lparr>role = ''assistant'', content = ''Hi''\<rparr>]
   \<and> geminiChatMessages conversation =
       [\<lparr>gemini_role = ''model'', parts = [\<lparr>part_text = ''Hi''\<rparr>]\<rparr>,
        \<lparr>gemini_role = ''user'',
          parts = [\<lparr>part_text = ''[System Instructions: Be brief.'' @ blank_line
                     @ ''Use English.]'' @ blank_line @ ''Hello''\<rparr>]\<rparr>,
        \<lparr>gemini_role = ''user'', parts = [\<lparr>part_text = ''Again''\<rparr>]\<rparr>]"
  using gemini_system_messages_merged
    [of a b conversation "[\<lparr>role = ''assistant'', content = ''Hi''\<rparr>]"
        "\<lparr>role = ''user'', content = ''Hello''\<rparr>" "[\<lparr>role = ''user'', content = ''Again''\<rparr>]"]
  by (simp add: conversation_def toGeminiMessage_def)

lemma geminiChatMessages_without_system:
  "geminiChatMessages (filter (\<lambda>m. role m \<noteq> ''system'') messages) =
     map toGeminiMessage (filter (\<lambda>m. role m \<noteq> ''system'') messages)"
proof -
  have "filter (\<lambda>m. role m = ''system'') (filter (\<lambda>m. role m \<noteq> ''system'') messages) = []"
    by (induction messages) simp_all
  then show ?thesis
    by (simp add: geminiChatMessages_def Let_def filter_system_converted
          filter_nonsystem_converted)
qed

lemma geminiChatMessages_without_user:
  assumes "\<forall>m\<in>set messages. role m \<noteq> ''user''"
  shows "geminiChatMessages messages =
           map toGeminiMessage (filter (\<lambda>m. role m \<noteq> ''system'') messages)"
proof -
  have "\<forall>g\<in>set (map toGeminiMessage (filter (\<lambda>m. role m \<noteq> ''system'') messages)).
          \<not> gemini_role g = ''user''"
    using assms by (auto simp: gemini_role_user)
  then have "findIndex (\<lambda>msg. gemini_role msg = ''user'')
               (map toGeminiMessage (filter (\<lambda>m. role m \<noteq> ''system'') messages)) = None"
    by (rule findIndex_none)
  then show ?thesis
    by (simp add: geminiChatMessages_def Let_def filter_system_converted
          filter_nonsystem_converted)
qed

lemma gemini_answer_returns:
  "\<exists>r. fst (GeminiProvider_answerQuestionAwaited llm generateContent messages s) = Inr r"
  by (cases "generateContent (geminiChatMessages messages) (chat_timeout llm) s")
     (simp add: GeminiProvider_answerQuestionAwaited_def Let_def split: sum.splits)

text \<open>
  C6: for a message list with a system message and no user message, the messages sent
  to Gemini are the converted non-system messages and nothing else: the content of the
  system messages is dropped, no message sent has the role \<^verbatim>\<open>system\<close>, the whole call
  behaves as on the list without its system messages, and it returns a message rather
  than failing.
\<close>

theorem gemini_system_dropped_without_user:
  "(\<exists>m\<in>set messages. role m = ''system'') \<and> (\<forall>m\<in>set messages. role m \<noteq> ''user'') \<longrightarrow>
     geminiChatMessages messages =
       map toGeminiMessage (filter (\<lambda>m. role m \<noteq> ''system'') messages)
     \<and> (\<forall>g\<in>set (geminiChatMessages messages). gemini_role g \<noteq> ''system'')
     \<and> GeminiProvider_answerQuestionAwaited llm generateContent messages s =
         GeminiProvider_answerQuestionAwaited llm generateContent
           (filter (\<lambda>m. role m \<noteq> ''system'') messages) s
     \<and> (\<exists>r. fst (GeminiProvider_answerQuestionAwaited llm generateContent messages s) = Inr r)"
proof (intro impI, elim conjE)
  assume "\<forall>m\<in>set messages. role m \<noteq> ''user''"
  note eq = geminiChatMessages_without_user [OF this]
  have "\<forall>g\<in>set (geminiChatMessages messages). gemini_role g \<noteq> ''system''"
    by (auto simp: eq gemini_role_system)
  moreover have "GeminiProvider_answerQuestionAwaited llm generateContent messages s =
         GeminiProvider_answerQuestionAwaited llm generateContent
           (filter (\<lambda>m. role m \<noteq> ''system'') messages) s"
    by (simp add: GeminiProvider_answerQuestionAwaited_def eq geminiChatMessages_without_system)
  ultimately show "geminiChatMessages messages =
       map toGeminiMessage (filter (\<lambda>m. role m \<noteq> ''system'') messages)
     \<and> (\<forall>g\<in>set (geminiChatMessages messages). gemini_role g \<noteq> ''system'')
     \<and> GeminiProvider_answerQuestionAwaited llm generateContent messages s =
         GeminiProvider_answerQuestionAwaited llm generateContent
           (filter (\<lambda>m. role m \<noteq> ''system'') messages) s
     \<and> (\<exists>r. fst (GeminiProvider_answerQuestionAwaited llm generateContent messages s) = Inr r)"
    using eq gemini_answer_returns [of llm generateContent messages s]
    by - (intro conjI, assumption+)
qed

theorem gemini_system_dropped_without_user_witness:
  "(\<exists>m\<in>set no_user_conversation. role m = ''system'')
   \<and> list_all (\<lambda>m. role m \<noteq> ''user'') no_user_conversation
   \<and> geminiChatMessages no_user_conversation =
       [\<lparr>gemini_role = ''model'', parts = [\<lparr>part_text = ''Hi''\<rparr>]\<rparr>]
   \<and> fst (GeminiProvider_answerQuestionAwaited gemini_llm refusing_generateContent
            no_user_conversation 0) = Inr \<lparr>role = ''assistant'', content = technical_apology\<rparr>"
proof -
  have h: "(\<exists>m\<in>set no_user_conversation. role m = ''system'')
             \<and> (\<forall>m\<in>set no_user_conversation. role m \<noteq> ''user'')"
    by (simp add: no_user_conversation_def)
  have a: "fst (GeminiProvider_answerQuestionAwaited gemini_llm refusing_generateContent
            no_user_conversation 0) = Inr \<lparr>role = ''assistant'', content = technical_apology\<rparr>"
    by (simp add: GeminiProvider_answerQuestionAwaited_def refusing_generateContent_def
          race_def gemini_isTimeout_def)
  from gemini_system_dropped_without_user
         [of no_user_conversation gemini_llm refusing_generateContent 0] h a
  show ?thesis
    by (simp add: no_user_conversation_def toGeminiMessage_def list_all_iff)
qed

section \<open>Properties of the defaults of the Ollama embedder\<close>

text \<open>With at least one attempt, \<^verbatim>\<open>withBackoff\<close> returns what an invocation of \<open>fn\<close> returned.\<close>

lemma withBackoff_outcome:
  assumes "1 \<le> n"
  shows "\<exists>k<nat n. fst (withBackoff n md sd rnd fn s) = fst (fn (after_calls fn k s))
           \<and> fst (snd (withBackoff n md sd rnd fn s)) = after_calls fn (Suc k) s"
proof -
  from assms obtain j where j: "nat (n - 0) = Suc j" by (cases "nat n") auto
  from withBackoff_loop_outcome [OF j, of md rnd fn sd s "[]"] obtain k where
    "k \<le> j" "fst (withBackoff n md sd rnd fn s) = fst (fn (after_calls fn k s))"
    "fst (snd (withBackoff n md sd rnd fn s)) = after_calls fn (Suc k) s"
    unfolding withBackoff_def by blast
  moreover from this j have "k < nat n" by simp
  ultimately show ?thesis by blast
qed

text \<open>
  C10: in \<^verbatim>\<open>OllamaProvider.createEmbedder\<close> the defaulting of \<^verbatim>\<open>numOfAttempts\<close> should leave
  \<^verbatim>\<open>withBackoff\<close> with at least one attempt, so that the trailing error, whose own message
  is ``Should not reach here'', cannot be hit.  The defaulting replaces only falsy
  values: a configured \<^verbatim>\<open>numOfAttempts\<close> of \<open>-1\<close> is truthy and is kept, the loop body
  never runs, no request is sent (the backend still counts 0 requests), and \<^verbatim>\<open>embed\<close>
  fails with the trailing error.
\<close>

theorem createEmbedder_negative_attempts_reach_trailing_error:
  "numOfAttempts negative_attempts_config = Some (- 1)
   \<and> embedder_numOfAttempts (OllamaProvider_createEmbedder negative_attempts_config) = - 1
   \<and> Ollama_embed (OllamaProvider_createEmbedder negative_attempts_config) no_jitter
        refusing_embeddings_post ''text'' 0 = (Inl (Error None ''Should not reach here''), 0, [])"
  by (simp add: OllamaProvider_createEmbedder_def negative_attempts_config_def empty_config_def
        or_number_def or_string_def Ollama_embed_def embedText_def withBackoff_def
        withBackoff_loop.simps)

text \<open>
  What the defaulting does do: an absent field and the number 0 are replaced by 3, 5000
  and 1000; with all three fields 0 the embedder makes three attempts.
\<close>

lemma createEmbedder_zero_defaults:
  "(numOfAttempts config \<in> {None, Some 0} \<longrightarrow>
      embedder_numOfAttempts (OllamaProvider_createEmbedder config) = 3)
   \<and> (maxDelay config \<in> {None, Some 0} \<longrightarrow>
      embedder_maxDelay (OllamaProvider_createEmbedder config) = 5000)
   \<and> (startingDelay config \<in> {None, Some 0} \<longrightarrow>
      embedder_startingDelay (OllamaProvider_createEmbedder config) = 1000)"
  by (auto simp: OllamaProvider_createEmbedder_def or_number_def split: option.splits)

lemma createEmbedder_zero_config:
  "embedText (OllamaProvider_createEmbedder zero_config) no_jitter refusing_embeddings_post
     ''text'' 0 =
       (Inl connection_refused, 3,
        [\<lparr>retry_attempt = 1, retry_delay = 2000, retry_actualDelay = 2000\<rparr>,
         \<lparr>retry_attempt = 2, retry_delay = 4000, retry_actualDelay = 4000\<rparr>])"
proof -
  have e: "OllamaProvider_createEmbedder zero_config =
             \<lparr>embedder_baseUrl = ''http://localhost:11434'', embedder_model = ''nomic-embed-text'',
              embedder_numOfAttempts = 3, embedder_maxDelay = 5000, embedder_startingDelay = 1000\<rparr>"
    by (simp add: OllamaProvider_createEmbedder_def zero_config_def empty_config_def
          or_number_def or_string_def)
  show ?thesis
    unfolding e
    by (simp add: embedText_def withBackoff_def withBackoff_loop.simps embeddings_call_def
          refusing_embeddings_post_def no_jitter_def)
qed

lemma makeOllamaEmbedder_defaults:
  "backoffOptions options = None \<longrightarrow>
     embedder_numOfAttempts (makeOllamaEmbedder options) = 3
     \<and> embedder_maxDelay (makeOllamaEmbedder options) = 5000
     \<and> embedder_startingDelay (makeOllamaEmbedder options) = 1000"
  by (simp add: makeOllamaEmbedder_def default_to_def or_number_def)

end
